theory Spec2Isabelle
  imports Main "HOL-Library.Word" "HOL-Library.Sublist"
begin

section \<open>Data model\<close>

text \<open>
  Modelled from the spec: the package \<^verbatim>\<open>csi\<close> that declares \<^verbatim>\<open>csi.Volume\<close> and
  \<^verbatim>\<open>csi.Server\<close> lies outside the files verified here. The records hold the fields of
  the design document's data model that the code reads and writes
  (\<^verbatim>\<open>ID\<close>, \<^verbatim>\<open>Name\<close>, \<^verbatim>\<open>Size\<close>, \<^verbatim>\<open>Location\<close>, \<^verbatim>\<open>Server\<close>), named as the code names them.
  A Go pointer that may be nil is an \<open>option\<close>. \<^verbatim>\<open>uint64\<close> is a 64-bit word; Go's \<^verbatim>\<open>int\<close>
  sizes are only compared, never added, so they are \<open>int\<close>.
\<close>

record Server =
  ServerID :: "64 word"

record Volume =
  ID :: "64 word"
  Name :: string
  Size :: int
  Location :: string
  Server :: "Server option"

text \<open>\<^verbatim>\<open>volumes.CreateOpts\<close>, with the four fields \<^verbatim>\<open>IdempotentService.Create\<close> reads.\<close>

record CreateOpts =
  OptName :: string
  MinSize :: int
  MaxSize :: int
  OptLocation :: string

text \<open>
  Modelled from the spec: the sentinel errors of package \<^verbatim>\<open>volumes\<close>
  (\<^verbatim>\<open>ErrVolumeAlreadyExists\<close>, \<^verbatim>\<open>ErrVolumeNotFound\<close>, \<^verbatim>\<open>ErrNotAttached\<close>, ...) are declared
  outside the files verified here; the constructors follow the error kinds the design
  document lists. Every other error value is \<open>ErrOther\<close> with its message. Go compares
  errors with \<^verbatim>\<open>==\<close>, which is equality of constructors here. A Go \<^verbatim>\<open>error\<close> that may be
  nil is an \<open>error option\<close>.
\<close>

datatype error =
    ErrVolumeAlreadyExists
  | ErrVolumeNotFound
  | ErrServerNotFound
  | ErrNotAttached
  | ErrAlreadyAttachedElsewhere
  | ErrAttachLimitReached
  | ErrOther string

text \<open>
  A Go function of result type \<^verbatim>\<open>(*csi.Volume, error)\<close> returns a pair; either component
  may be nil.
\<close>

type_synonym volume_result = "Volume option \<times> error option"

text \<open>
  Dereferencing a nil pointer panics. A function of the model either returns its Go
  result or panics.
\<close>

datatype 'a outcome = Return 'a | Panic

section \<open>The backend interface\<close>

text \<open>
  \<^verbatim>\<open>volumes.Service\<close> is the interface \<^verbatim>\<open>IdempotentService\<close> wraps. An implementation is a
  record of operations over a remote state \<open>'s\<close>: each takes the state and returns its
  Go result with the state it leaves.
\<close>

record 's Service =
  svcCreate :: "CreateOpts \<Rightarrow> 's \<Rightarrow> volume_result \<times> 's"
  svcGetByID :: "64 word \<Rightarrow> 's \<Rightarrow> volume_result \<times> 's"
  svcGetByName :: "string \<Rightarrow> 's \<Rightarrow> volume_result \<times> 's"
  svcDelete :: "Volume \<Rightarrow> 's \<Rightarrow> error option \<times> 's"
  svcAttach :: "Volume \<Rightarrow> Server \<Rightarrow> 's \<Rightarrow> error option \<times> 's"
  svcDetach :: "Volume \<Rightarrow> 's \<Rightarrow> error option \<times> 's"

text \<open>The calls a wrapper issues to its backend, in the order it issues them.\<close>

datatype call =
    CallCreate CreateOpts
  | CallGetByID "64 word"
  | CallGetByName string
  | CallDelete Volume
  | CallAttach Volume Server
  | CallDetach Volume

text \<open>
  The state an \<^verbatim>\<open>IdempotentService\<close> method runs in: the backend's remote state and the
  log of backend calls issued so far. The service itself has no mutable field.
\<close>

record 's world =
  remote :: 's
  calls :: "call list"

definition backendCreate :: "'s Service \<Rightarrow> CreateOpts \<Rightarrow> 's world \<Rightarrow> volume_result \<times> 's world" where
  "backendCreate b opts w =
     (let (r, s') = svcCreate b opts (remote w)
      in (r, \<lparr>remote = s', calls = calls w @ [CallCreate opts]\<rparr>))"

definition backendGetByID :: "'s Service \<Rightarrow> 64 word \<Rightarrow> 's world \<Rightarrow> volume_result \<times> 's world" where
  "backendGetByID b i w =
     (let (r, s') = svcGetByID b i (remote w)
      in (r, \<lparr>remote = s', calls = calls w @ [CallGetByID i]\<rparr>))"

definition backendGetByName :: "'s Service \<Rightarrow> string \<Rightarrow> 's world \<Rightarrow> volume_result \<times> 's world" where
  "backendGetByName b n w =
     (let (r, s') = svcGetByName b n (remote w)
      in (r, \<lparr>remote = s', calls = calls w @ [CallGetByName n]\<rparr>))"

definition backendDelete :: "'s Service \<Rightarrow> Volume \<Rightarrow> 's world \<Rightarrow> error option \<times> 's world" where
  "backendDelete b v w =
     (let (r, s') = svcDelete b v (remote w)
      in (r, \<lparr>remote = s', calls = calls w @ [CallDelete v]\<rparr>))"

definition backendAttach :: "'s Service \<Rightarrow> Volume \<Rightarrow> Server \<Rightarrow> 's world \<Rightarrow> error option \<times> 's world" where
  "backendAttach b v sv w =
     (let (r, s') = svcAttach b v sv (remote w)
      in (r, \<lparr>remote = s', calls = calls w @ [CallAttach v sv]\<rparr>))"

definition backendDetach :: "'s Service \<Rightarrow> Volume \<Rightarrow> 's world \<Rightarrow> error option \<times> 's world" where
  "backendDetach b v w =
     (let (r, s') = svcDetach b v (remote w)
      in (r, \<lparr>remote = s', calls = calls w @ [CallDetach v]\<rparr>))"

section \<open>IdempotentService\<close>

text \<open>
  \<^verbatim>\<open>IdempotentService.Create\<close>. Logging is left out, except that the log call after a
  successful backend create reads \<^verbatim>\<open>volume.ID\<close> and so panics on a nil volume.
\<close>

definition Create :: "'s Service \<Rightarrow> CreateOpts \<Rightarrow> 's world \<Rightarrow> volume_result outcome \<times> 's world" where
  "Create b opts w =
     (let ((volume, err), w1) = backendCreate b opts w in
      if err = None then
        (case volume of
           None \<Rightarrow> (Panic, w1)
         | Some v \<Rightarrow> (Return (Some v, None), w1))
      else if err = Some ErrVolumeAlreadyExists then
        (let ((existingVolume, err2), w2) = backendGetByName b (OptName opts) w1 in
         if err2 \<noteq> None then (Return (None, err2), w2)
         else
           (case existingVolume of
              None \<Rightarrow> (Return (None, Some ErrVolumeAlreadyExists), w2)
            | Some ev \<Rightarrow>
                if Size ev < MinSize opts then
                  (Return (None, Some ErrVolumeAlreadyExists), w2)
                else if MaxSize opts > 0 \<and> Size ev > MaxSize opts then
                  (Return (None, Some ErrVolumeAlreadyExists), w2)
                else if Location ev \<noteq> OptLocation opts then
                  (Return (None, Some ErrVolumeAlreadyExists), w2)
                else (Return (Some ev, None), w2)))
      else (Return (None, err), w1))"

text \<open>\<^verbatim>\<open>IdempotentService.GetByID\<close> and \<^verbatim>\<open>GetByName\<close> pass through.\<close>

definition GetByID :: "'s Service \<Rightarrow> 64 word \<Rightarrow> 's world \<Rightarrow> volume_result \<times> 's world" where
  "GetByID b i w = backendGetByID b i w"

definition GetByName :: "'s Service \<Rightarrow> string \<Rightarrow> 's world \<Rightarrow> volume_result \<times> 's world" where
  "GetByName b n w = backendGetByName b n w"

text \<open>\<^verbatim>\<open>IdempotentService.Delete\<close>: the detach's error is assigned to the blank identifier.\<close>

definition Delete :: "'s Service \<Rightarrow> Volume \<Rightarrow> 's world \<Rightarrow> error option \<times> 's world" where
  "Delete b volume w =
     (let (_, w1) = backendDetach b volume w;
          (err, w2) = backendDelete b volume w1
      in case err of
           Some ErrVolumeNotFound \<Rightarrow> (None, w2)
         | None \<Rightarrow> (None, w2)
         | Some e \<Rightarrow> (Some e, w2))"

text \<open>
  \<^verbatim>\<open>IdempotentService.Attach\<close>. The volume the pre-read returns is dereferenced
  (\<^verbatim>\<open>vol.Server\<close>) without a nil check.
\<close>

definition Attach :: "'s Service \<Rightarrow> Volume \<Rightarrow> Server \<Rightarrow> 's world \<Rightarrow> error option outcome \<times> 's world" where
  "Attach b volume server w =
     (let ((vol, err), w1) = backendGetByID b (ID volume) w in
      if err \<noteq> None then (Return err, w1)
      else
        (case vol of
           None \<Rightarrow> (Panic, w1)
         | Some vl \<Rightarrow>
             (let w2 =
                    (if Server vl \<noteq> None \<and> ServerID (the (Server vl)) \<noteq> ServerID server
                     then snd (backendDetach b volume w1)
                     else w1);
                  (attachErr, w3) = backendAttach b volume server w2
              in if attachErr = None then (Return None, w3)
                 else if Server vl \<noteq> None \<and> ServerID (the (Server vl)) = ServerID server
                 then (Return None, w3)
                 else (Return attachErr, w3))))"

text \<open>\<^verbatim>\<open>IdempotentService.Detach\<close>.\<close>

definition Detach :: "'s Service \<Rightarrow> Volume \<Rightarrow> 's world \<Rightarrow> error option \<times> 's world" where
  "Detach b volume w =
     (let (err, w1) = backendDetach b volume w
      in case err of
           Some ErrNotAttached \<Rightarrow> (None, w1)
         | None \<Rightarrow> (None, w1)
         | Some e \<Rightarrow> (Some e, w1))"

section \<open>The in-memory backend of the sanity test\<close>

text \<open>
  \<^verbatim>\<open>sanityVolumeService\<close> keeps its volumes in a \<^verbatim>\<open>list.List\<close>, front first. Every method
  holds the mutex for its whole body, so each is one step on the list. The loops walk
  the list from the front and stop at the first match.
\<close>

type_synonym sanity_state = "Volume list"

fun sanityNameTaken :: "string \<Rightarrow> Volume list \<Rightarrow> bool" where
  "sanityNameTaken n [] = False"
| "sanityNameTaken n (v # vs) = (if Name v = n then True else sanityNameTaken n vs)"

definition sanityCreate :: "CreateOpts \<Rightarrow> sanity_state \<Rightarrow> volume_result \<times> sanity_state" where
  "sanityCreate opts s =
     (if sanityNameTaken (OptName opts) s then ((None, Some ErrVolumeAlreadyExists), s)
      else
        (let volume = \<lparr>ID = of_nat (length s + 1), Name = OptName opts, Size = MinSize opts,
                         Location = OptLocation opts, Server = None\<rparr>
         in ((Some volume, None), s @ [volume])))"

fun sanityFindByID :: "64 word \<Rightarrow> Volume list \<Rightarrow> Volume option" where
  "sanityFindByID i [] = None"
| "sanityFindByID i (v # vs) = (if ID v = i then Some v else sanityFindByID i vs)"

definition sanityGetByID :: "64 word \<Rightarrow> sanity_state \<Rightarrow> volume_result \<times> sanity_state" where
  "sanityGetByID i s =
     (case sanityFindByID i s of
        Some v \<Rightarrow> ((Some v, None), s)
      | None \<Rightarrow> ((None, Some ErrVolumeNotFound), s))"

fun sanityFindByName :: "string \<Rightarrow> Volume list \<Rightarrow> Volume option" where
  "sanityFindByName n [] = None"
| "sanityFindByName n (v # vs) = (if Name v = n then Some v else sanityFindByName n vs)"

definition sanityGetByName :: "string \<Rightarrow> sanity_state \<Rightarrow> volume_result \<times> sanity_state" where
  "sanityGetByName n s =
     (case sanityFindByName n s of
        Some v \<Rightarrow> ((Some v, None), s)
      | None \<Rightarrow> ((None, Some ErrVolumeNotFound), s))"

text \<open>The loop of \<^verbatim>\<open>Delete\<close>: the first element with the ID is removed, if there is one.\<close>

fun sanityRemoveByID :: "64 word \<Rightarrow> Volume list \<Rightarrow> (Volume list) option" where
  "sanityRemoveByID i [] = None"
| "sanityRemoveByID i (v # vs) =
     (if ID v = i then Some vs
      else (case sanityRemoveByID i vs of None \<Rightarrow> None | Some vs' \<Rightarrow> Some (v # vs')))"

definition sanityDelete :: "Volume \<Rightarrow> sanity_state \<Rightarrow> error option \<times> sanity_state" where
  "sanityDelete volume s =
     (case sanityRemoveByID (ID volume) s of
        Some s' \<Rightarrow> (None, s')
      | None \<Rightarrow> (Some ErrVolumeNotFound, s))"

definition sanityAttach :: "Volume \<Rightarrow> Server \<Rightarrow> sanity_state \<Rightarrow> error option \<times> sanity_state" where
  "sanityAttach volume server s = (None, s)"

text \<open>
  \<^verbatim>\<open>sanityVolumeService.Detach\<close> returns nil whatever its arguments are. The test file
  declares it with a \<^verbatim>\<open>server\<close> parameter that \<^verbatim>\<open>IdempotentService\<close> does not pass; the
  parameter is unused, so the method is modelled at the arity the wrapper calls.
\<close>

definition sanityDetach :: "Volume \<Rightarrow> sanity_state \<Rightarrow> error option \<times> sanity_state" where
  "sanityDetach volume s = (None, s)"

definition sanityVolumeService :: "sanity_state Service" where
  "sanityVolumeService =
     \<lparr>svcCreate = sanityCreate, svcGetByID = sanityGetByID, svcGetByName = sanityGetByName,
      svcDelete = sanityDelete, svcAttach = sanityAttach, svcDetach = sanityDetach\<rparr>"

text \<open>
  The mutex is released between two calls of the wrapper, so another request can run
  there. \<open>sanityThenDelete\<close> is the in-memory backend with one such interleaving: a
  concurrent \<^verbatim>\<open>Delete\<close> of the volume named \<open>n\<close> runs right after a \<^verbatim>\<open>Create\<close> that
  reported the name as taken, before the wrapper's next call.
\<close>

definition sanityCreateThenDelete :: "CreateOpts \<Rightarrow> sanity_state \<Rightarrow> volume_result \<times> sanity_state" where
  "sanityCreateThenDelete opts s =
     (let (r, s1) = sanityCreate opts s in
      if snd r = Some ErrVolumeAlreadyExists then
        (case sanityFindByName (OptName opts) s1 of
           Some v \<Rightarrow> (r, snd (sanityDelete v s1))
         | None \<Rightarrow> (r, s1))
      else (r, s1))"

definition sanityThenDelete :: "sanity_state Service" where
  "sanityThenDelete = sanityVolumeService\<lparr>svcCreate := sanityCreateThenDelete\<rparr>"

text \<open>No two volumes of the backend share a name.\<close>

definition uniqueNames :: "sanity_state \<Rightarrow> bool" where
  "uniqueNames s = distinct (map Name s)"

section \<open>Process startup\<close>

text \<open>
  \<^verbatim>\<open>main\<close> talks to the operating system, the metadata service and the cloud API. What
  they answer is the environment of a run; the run is the sequence of effects it has on
  them, and how it ends. Logging and the construction and registration of the services,
  which cannot fail, leave no event.
\<close>

text \<open>
  \<^verbatim>\<open>os.Remove\<close> returns nil, an error for which \<^verbatim>\<open>os.IsNotExist\<close> holds, or another error.
\<close>

datatype remove_result = Removed | RemoveNotExist | RemoveFailed

text \<open>
  The \<^verbatim>\<open>hcloud.Server\<close> that \<^verbatim>\<open>main\<close> reads: \<^verbatim>\<open>server.Name\<close> and
  \<^verbatim>\<open>server.Datacenter.Location.Name\<close>, through two pointers that may be nil.
\<close>

record hcloudLocation =
  LocationName :: string

record hcloudDatacenter =
  DatacenterLocation :: "hcloudLocation option"

record hcloudServer =
  ServerName :: string
  Datacenter :: "hcloudDatacenter option"

text \<open>
  \<^verbatim>\<open>http.Get\<close> on the metadata address fails, or the body cannot be read, or the body is
  read.
\<close>

datatype http_result = GetFailed | ReadFailed | Body string

record env =
  getenv :: "string \<Rightarrow> string"
  osRemove :: "string \<Rightarrow> remove_result"
  atoi :: "string \<Rightarrow> int option"
  httpGetInstanceID :: http_result
  serverGetByID :: "int \<Rightarrow> hcloudServer option \<times> string option"
  netListen :: "string \<Rightarrow> string option"
  grpcServe :: "string option"

datatype event =
    EvRemove string
  | EvHttpGet
  | EvServerGetByID int
  | EvListen string
  | EvSetReady bool
  | EvServe

text \<open>A run ends by \<^verbatim>\<open>os.Exit\<close> with a status, by a panic, or by \<^verbatim>\<open>main\<close> returning.\<close>

datatype ending = Exit nat | Panicked | Returned

text \<open>\<^verbatim>\<open>getInstanceID\<close>: the instance ID, or an error.\<close>

definition getInstanceID :: "env \<Rightarrow> int option" where
  "getInstanceID e =
     (case httpGetInstanceID e of
        GetFailed \<Rightarrow> None
      | ReadFailed \<Rightarrow> None
      | Body body \<Rightarrow> atoi e body)"

text \<open>
  \<^verbatim>\<open>getServerID\<close>: the events of the call, and the server ID or the status it exits
  with.
\<close>

definition getServerID :: "env \<Rightarrow> event list \<times> (nat + int)" where
  "getServerID e =
     (let s = getenv e ''HCLOUD_SERVER_ID'' in
      if s \<noteq> [] then
        (case atoi e s of
           None \<Rightarrow> ([], Inl 1)
         | Some i \<Rightarrow> ([], Inr i))
      else
        (case getInstanceID e of
           None \<Rightarrow> ([EvHttpGet], Inl 1)
         | Some i \<Rightarrow> ([EvHttpGet], Inr i)))"

definition main :: "env \<Rightarrow> event list \<times> ending" where
  "main e =
     (let endpoint = getenv e ''CSI_ENDPOINT'' in
      if endpoint = [] then ([], Exit 2)
      else if \<not> prefix ''unix://'' endpoint then ([], Exit 2)
      else
        (let endpoint = drop 7 endpoint;
             ev1 = [EvRemove endpoint]
         in if osRemove e endpoint = RemoveFailed then (ev1, Exit 1)
            else if getenv e ''HCLOUD_TOKEN'' = [] then (ev1, Exit 2)
            else
              (case getServerID e of
                 (evs, Inl status) \<Rightarrow> (ev1 @ evs, Exit status)
               | (evs, Inr hcloudServerID) \<Rightarrow>
                   (let ev2 = ev1 @ evs @ [EvServerGetByID hcloudServerID];
                        (server, err) = serverGetByID e hcloudServerID
                    in if err \<noteq> None then (ev2, Exit 1)
                       else
                         (case server of
                            None \<Rightarrow> (ev2, Panicked)
                          | Some srv \<Rightarrow>
                              (case Datacenter srv of
                                 None \<Rightarrow> (ev2, Panicked)
                               | Some dc \<Rightarrow>
                                   (case DatacenterLocation dc of
                                      None \<Rightarrow> (ev2, Panicked)
                                    | Some loc \<Rightarrow>
                                        (let ev3 = ev2 @ [EvListen endpoint] in
                                         if netListen e endpoint \<noteq> None then (ev3, Exit 1)
                                         else
                                           (let ev4 = ev3 @ [EvSetReady True, EvServe] in
                                            if grpcServe e \<noteq> None then (ev4, Exit 1)
                                            else (ev4, Returned))))))))))"

section \<open>Example inputs\<close>

text \<open>
  The design document's conflict example: a volume named X of size 5, and a request for
  the name X with a minimum size of 10. \<open>volumeX10\<close> is a volume of that name that
  satisfies the request.
\<close>

definition volumeX :: Volume where
  "volumeX = \<lparr>ID = 1, Name = ''X'', Size = 5, Location = ''fsn1'', Server = None\<rparr>"

definition volumeX10 :: Volume where
  "volumeX10 = \<lparr>ID = 1, Name = ''X'', Size = 10, Location = ''fsn1'', Server = None\<rparr>"

definition optsX :: CreateOpts where
  "optsX = \<lparr>OptName = ''X'', MinSize = 10, MaxSize = 0, OptLocation = ''fsn1''\<rparr>"

text \<open>A request whose maximum size is set and lies below its minimum size.\<close>

definition optsMinAboveMax :: CreateOpts where
  "optsMinAboveMax = \<lparr>OptName = ''X'', MinSize = 10, MaxSize = 5, OptLocation = ''fsn1''\<rparr>"

text \<open>A volume that the backend reports as attached to server 42.\<close>

definition volumeAt42 :: Volume where
  "volumeAt42 = \<lparr>ID = 1, Name = ''data'', Size = 10, Location = ''fsn1'',
                  Server = Some \<lparr>ServerID = 42\<rparr>\<rparr>"

text \<open>An in-memory backend whose attach and detach fail.\<close>

definition sanityFailingAttach :: "sanity_state Service" where
  "sanityFailingAttach =
     sanityVolumeService
       \<lparr>svcAttach := \<lambda>volume server s. (Some ErrAttachLimitReached, s),
        svcDetach := \<lambda>volume s. (Some ErrNotAttached, s)\<rparr>"

text \<open>
  A backend that records every call that reaches it in its remote state. Lookups
  return \<open>found\<close> with no error; every other operation returns \<open>failure\<close>.
\<close>

definition recordingService :: "Volume option \<Rightarrow> error option \<Rightarrow> call list Service" where
  "recordingService found failure =
     \<lparr>svcCreate = (\<lambda>opts s. ((None, failure), s @ [CallCreate opts])),
      svcGetByID = (\<lambda>i s. ((found, None), s @ [CallGetByID i])),
      svcGetByName = (\<lambda>n s. ((found, None), s @ [CallGetByName n])),
      svcDelete = (\<lambda>volume s. (failure, s @ [CallDelete volume])),
      svcAttach = (\<lambda>volume server s. (failure, s @ [CallAttach volume server])),
      svcDetach = (\<lambda>volume s. (failure, s @ [CallDetach volume]))\<rparr>"

text \<open>
  An environment in which startup succeeds: the endpoint is a socket path with no stale
  file, the server ID comes from \<^verbatim>\<open>HCLOUD_SERVER_ID\<close>, and the server is found.
\<close>

definition exampleEnv :: env where
  "exampleEnv =
     \<lparr>getenv = (\<lambda>k. if k = ''CSI_ENDPOINT'' then ''unix:///run/csi.sock''
                     else if k = ''HCLOUD_TOKEN'' then ''token''
                     else if k = ''HCLOUD_SERVER_ID'' then ''42'' else []),
      osRemove = (\<lambda>p. RemoveNotExist),
      atoi = (\<lambda>s. if s = ''42'' then Some 42 else None),
      httpGetInstanceID = GetFailed,
      serverGetByID = (\<lambda>i. (Some \<lparr>ServerName = ''node'',
                                     Datacenter = Some \<lparr>DatacenterLocation =
                                       Some \<lparr>LocationName = ''fsn1''\<rparr>\<rparr>\<rparr>, None)),
      netListen = (\<lambda>p. None),
      grpcServe = None\<rparr>"

text \<open>The same environment, with a cloud API that fails to return the server.\<close>

definition exampleEnvFetchFails :: env where
  "exampleEnvFetchFails = exampleEnv\<lparr>serverGetByID := \<lambda>i. (None, Some ''unreachable'')\<rparr>"

text \<open>The same environment, with a stale socket file that cannot be removed.\<close>

definition exampleEnvRemoveFails :: env where
  "exampleEnvRemoveFails = exampleEnv\<lparr>osRemove := \<lambda>p. RemoveFailed\<rparr>"

section \<open>The backend calls of the wrapper\<close>

lemma backend_simps:
  "fst (backendCreate b opts w) = fst (svcCreate b opts (remote w))"
  "remote (snd (backendCreate b opts w)) = snd (svcCreate b opts (remote w))"
  "calls (snd (backendCreate b opts w)) = calls w @ [CallCreate opts]"
  "fst (backendGetByID b i w) = fst (svcGetByID b i (remote w))"
  "remote (snd (backendGetByID b i w)) = snd (svcGetByID b i (remote w))"
  "calls (snd (backendGetByID b i w)) = calls w @ [CallGetByID i]"
  "fst (backendGetByName b n w) = fst (svcGetByName b n (remote w))"
  "remote (snd (backendGetByName b n w)) = snd (svcGetByName b n (remote w))"
  "calls (snd (backendGetByName b n w)) = calls w @ [CallGetByName n]"
  "fst (backendDelete b v w) = fst (svcDelete b v (remote w))"
  "remote (snd (backendDelete b v w)) = snd (svcDelete b v (remote w))"
  "calls (snd (backendDelete b v w)) = calls w @ [CallDelete v]"
  "fst (backendAttach b v sv w) = fst (svcAttach b v sv (remote w))"
  "remote (snd (backendAttach b v sv w)) = snd (svcAttach b v sv (remote w))"
  "calls (snd (backendAttach b v sv w)) = calls w @ [CallAttach v sv]"
  "fst (backendDetach b v w) = fst (svcDetach b v (remote w))"
  "remote (snd (backendDetach b v w)) = snd (svcDetach b v (remote w))"
  "calls (snd (backendDetach b v w)) = calls w @ [CallDetach v]"
  by (simp_all add: backendCreate_def backendGetByID_def backendGetByName_def
      backendDelete_def backendAttach_def backendDetach_def split_beta)

lemma sanity_svc [simp]:
  "svcCreate sanityVolumeService = sanityCreate"
  "svcGetByID sanityVolumeService = sanityGetByID"
  "svcGetByName sanityVolumeService = sanityGetByName"
  "svcDelete sanityVolumeService = sanityDelete"
  "svcAttach sanityVolumeService = sanityAttach"
  "svcDetach sanityVolumeService = sanityDetach"
  by (simp_all add: sanityVolumeService_def)

section \<open>Detach\<close>

lemma Detach_unfold:
  "Detach b volume w =
     (case fst (backendDetach b volume w) of
        Some ErrNotAttached \<Rightarrow> None | None \<Rightarrow> None | Some e \<Rightarrow> Some e,
      snd (backendDetach b volume w))"
  by (simp add: Detach_def split_beta split: option.splits error.splits)

text \<open>
  Claim C6. For every backend and volume, \<^verbatim>\<open>IdempotentService.Detach\<close> issues one backend
  detach and returns success when that detach succeeds or reports \<open>ErrNotAttached\<close>;
  in every other case it returns the backend's error.
\<close>

theorem Detach_not_attached_is_success:
  "fst (Detach b volume w) =
     (if fst (svcDetach b volume (remote w)) = None
         \<or> fst (svcDetach b volume (remote w)) = Some ErrNotAttached
      then None else fst (svcDetach b volume (remote w)))
   \<and> calls (snd (Detach b volume w)) = calls w @ [CallDetach volume]
   \<and> remote (snd (Detach b volume w)) = snd (svcDetach b volume (remote w))"
  by (simp add: Detach_unfold backend_simps split: option.splits error.splits)

theorem Detach_not_attached_is_success_witness:
  "fst (Detach sanityFailingAttach volumeAt42 \<lparr>remote = [volumeAt42], calls = []\<rparr>) = None
   \<and> calls (snd (Detach sanityFailingAttach volumeAt42 \<lparr>remote = [volumeAt42], calls = []\<rparr>))
       = [CallDetach volumeAt42]"
  using Detach_not_attached_is_success
          [of sanityFailingAttach volumeAt42 "\<lparr>remote = [volumeAt42], calls = []\<rparr>"]
  by (simp add: sanityFailingAttach_def)

section \<open>Delete\<close>

lemma Delete_unfold:
  "Delete b volume w =
     (case fst (backendDelete b volume (snd (backendDetach b volume w))) of
        Some ErrVolumeNotFound \<Rightarrow> None | None \<Rightarrow> None | Some e \<Rightarrow> Some e,
      snd (backendDelete b volume (snd (backendDetach b volume w))))"
  by (simp add: Delete_def split_beta split: option.splits error.splits)

lemma Delete_result:
  "fst (Delete b volume w) =
     (if fst (svcDelete b volume (snd (svcDetach b volume (remote w)))) = None
         \<or> fst (svcDelete b volume (snd (svcDetach b volume (remote w)))) = Some ErrVolumeNotFound
      then None else fst (svcDelete b volume (snd (svcDetach b volume (remote w)))))"
  by (simp add: Delete_unfold backend_simps split: option.splits error.splits)

lemma Delete_calls:
  "calls (snd (Delete b volume w)) = calls w @ [CallDetach volume, CallDelete volume]"
  by (simp add: Delete_unfold backend_simps)

lemma Delete_remote:
  "remote (snd (Delete b volume w)) = snd (svcDelete b volume (snd (svcDetach b volume (remote w))))"
  by (simp add: Delete_unfold backend_simps)

lemma sanityDelete_err:
  "fst (sanityDelete volume s) = None \<or> fst (sanityDelete volume s) = Some ErrVolumeNotFound"
  by (simp add: sanityDelete_def split: option.splits)

lemma Delete_sanity_success: "fst (Delete sanityVolumeService volume w) = None"
  using sanityDelete_err [of volume "snd (sanityDetach volume (remote w))"]
  by (auto simp add: Delete_result)

text \<open>
  Claim C4. For every backend and volume, \<^verbatim>\<open>IdempotentService.Delete\<close> issues a backend
  detach and then a backend delete, in that order. It returns success when the delete
  succeeds or reports \<open>ErrVolumeNotFound\<close> and the delete's error otherwise; the error
  \<open>derr\<close> that the detach returns has no influence on the result. The remote state
  after \<^verbatim>\<open>Delete\<close> is the one the backend delete left, run on the state the detach left.
  On the in-memory backend, deleting any volume, present or not, succeeds and leaves the
  list as the backend's delete leaves it, and deleting it a second time succeeds too.
\<close>

theorem Delete_detach_ignored_not_found_is_success:
  "calls (snd (Delete b volume w)) = calls w @ [CallDetach volume, CallDelete volume]
   \<and> fst (Delete b volume w) =
       (if fst (svcDelete b volume (snd (svcDetach b volume (remote w)))) = None
           \<or> fst (svcDelete b volume (snd (svcDetach b volume (remote w)))) = Some ErrVolumeNotFound
        then None else fst (svcDelete b volume (snd (svcDetach b volume (remote w)))))
   \<and> fst (Delete (b\<lparr>svcDetach := \<lambda>v s. (derr, snd (svcDetach b v s))\<rparr>) volume w)
       = fst (Delete b volume w)
   \<and> remote (snd (Delete b volume w)) =
       snd (svcDelete b volume (snd (svcDetach b volume (remote w))))
   \<and> remote (snd (Delete (b\<lparr>svcDetach := \<lambda>v s. (derr, snd (svcDetach b v s))\<rparr>) volume w))
       = remote (snd (Delete b volume w))
   \<and> fst (Delete sanityVolumeService volume ws) = None
   \<and> remote (snd (Delete sanityVolumeService volume ws)) = snd (sanityDelete volume (remote ws))
   \<and> fst (Delete sanityVolumeService volume (snd (Delete sanityVolumeService volume ws))) = None"
proof -
  have result: "fst (Delete (b\<lparr>svcDetach := \<lambda>v s. (derr, snd (svcDetach b v s))\<rparr>) volume w)
          = fst (Delete b volume w)"
    by (simp add: Delete_result)
  have state: "remote (snd (Delete (b\<lparr>svcDetach := \<lambda>v s. (derr, snd (svcDetach b v s))\<rparr>) volume w))
          = remote (snd (Delete b volume w))"
    by (simp add: Delete_remote)
  have sanity: "remote (snd (Delete sanityVolumeService volume ws))
                  = snd (sanityDelete volume (remote ws))"
    by (simp add: Delete_remote sanityDetach_def)
  show ?thesis
    using result state sanity
      Delete_calls [of b volume w] Delete_result [of b volume w] Delete_remote [of b volume w]
      Delete_sanity_success [of volume ws]
      Delete_sanity_success [of volume "snd (Delete sanityVolumeService volume ws)"]
    by (intro conjI) assumption+
qed

theorem Delete_detach_ignored_not_found_is_success_witness:
  "fst (Delete sanityFailingAttach volumeX \<lparr>remote = [], calls = []\<rparr>) = None
   \<and> calls (snd (Delete sanityFailingAttach volumeX \<lparr>remote = [], calls = []\<rparr>))
       = [CallDetach volumeX, CallDelete volumeX]
   \<and> remote (snd (Delete (recordingService None (Some ErrNotAttached)) volumeX
                    \<lparr>remote = [], calls = []\<rparr>))
       = [CallDetach volumeX, CallDelete volumeX]
   \<and> fst (Delete (recordingService None (Some ErrNotAttached)) volumeX
            \<lparr>remote = [], calls = []\<rparr>) = Some ErrNotAttached
   \<and> fst (Delete sanityVolumeService volumeX \<lparr>remote = [volumeX], calls = []\<rparr>) = None
   \<and> remote (snd (Delete sanityVolumeService volumeX \<lparr>remote = [volumeX], calls = []\<rparr>)) = []
   \<and> fst (Delete sanityVolumeService volumeX
            (snd (Delete sanityVolumeService volumeX \<lparr>remote = [volumeX], calls = []\<rparr>))) = None"
  using Delete_detach_ignored_not_found_is_success
          [where b = sanityFailingAttach and volume = volumeX
             and w = "\<lparr>remote = [], calls = []\<rparr>"
             and ws = "\<lparr>remote = [volumeX], calls = []\<rparr>"]
        Delete_detach_ignored_not_found_is_success
          [where b = "recordingService None (Some ErrNotAttached)" and volume = volumeX
             and w = "\<lparr>remote = [], calls = []\<rparr>"
             and ws = "\<lparr>remote = [volumeX], calls = []\<rparr>"]
  by (simp add: sanityFailingAttach_def sanityDelete_def recordingService_def)

section \<open>Attach\<close>

lemma Attach_pre_read_error:
  assumes "snd (fst (svcGetByID b (ID volume) (remote w))) = Some e"
  shows "Attach b volume server w = (Return (Some e), snd (backendGetByID b (ID volume) w))"
proof -
  have "snd (fst (backendGetByID b (ID volume) w)) = Some e"
    using assms by (simp add: backend_simps)
  then show ?thesis
    by (simp add: Attach_def split_beta)
qed

text \<open>
  Claim C9. If the read of the volume at the start of \<^verbatim>\<open>IdempotentService.Attach\<close> returns
  an error, \<^verbatim>\<open>Attach\<close> returns that error; the only backend call it has issued is that
  \<^verbatim>\<open>GetByID\<close>, and the remote state is the one the read left.
\<close>

theorem Attach_pre_read_failure_returns_at_once:
  assumes "snd (fst (svcGetByID b (ID volume) (remote w))) = Some e"
  shows "fst (Attach b volume server w) = Return (Some e)
       \<and> calls (snd (Attach b volume server w)) = calls w @ [CallGetByID (ID volume)]
       \<and> remote (snd (Attach b volume server w)) = snd (svcGetByID b (ID volume) (remote w))"
  by (simp add: Attach_pre_read_error [OF assms] backend_simps)

theorem Attach_pre_read_failure_returns_at_once_witness:
  "snd (fst (svcGetByID sanityVolumeService (ID volumeX) [])) = Some ErrVolumeNotFound
   \<and> fst (Attach sanityVolumeService volumeX \<lparr>ServerID = 42\<rparr> \<lparr>remote = [], calls = []\<rparr>)
       = Return (Some ErrVolumeNotFound)
   \<and> calls (snd (Attach sanityVolumeService volumeX \<lparr>ServerID = 42\<rparr> \<lparr>remote = [], calls = []\<rparr>))
       = [CallGetByID 1]
   \<and> remote (snd (Attach sanityVolumeService volumeX \<lparr>ServerID = 42\<rparr> \<lparr>remote = [], calls = []\<rparr>))
       = []"
proof -
  have pre: "snd (fst (svcGetByID sanityVolumeService (ID volumeX)
                         (remote \<lparr>remote = [], calls = []\<rparr>))) = Some ErrVolumeNotFound"
    by (simp add: sanityGetByID_def)
  show ?thesis
    using pre Attach_pre_read_failure_returns_at_once [OF pre, of "\<lparr>ServerID = 42\<rparr>"]
    by (simp add: volumeX_def sanityGetByID_def)
qed

lemma Attach_pre_read_volume:
  assumes "fst (svcGetByID b (ID volume) (remote w)) = (Some vl, None)"
  shows "Attach b volume server w =
     (let w1 = snd (backendGetByID b (ID volume) w);
          w2 = (if \<exists>sv. Server vl = Some sv \<and> ServerID sv \<noteq> ServerID server
                then snd (backendDetach b volume w1) else w1);
          attachErr = fst (backendAttach b volume server w2)
      in (Return (if attachErr = None
                     \<or> (\<exists>sv. Server vl = Some sv \<and> ServerID sv = ServerID server)
                  then None else attachErr),
          snd (backendAttach b volume server w2)))"
proof -
  have "fst (backendGetByID b (ID volume) w) = (Some vl, None)"
    using assms by (simp add: backend_simps)
  then show ?thesis
    by (cases "Server vl") (simp_all add: Attach_def split_beta Let_def)
qed

text \<open>
  Claim C2. When the pre-read of \<^verbatim>\<open>IdempotentService.Attach\<close> returns the volume \<open>vl\<close>, the
  backend calls are: the \<^verbatim>\<open>GetByID\<close>; a detach exactly when \<open>vl\<close> is attached to a server
  other than the requested one; the attach. The remote state after \<^verbatim>\<open>Attach\<close> is the one
  the backend attach left, run on the state the detach left when there was one and on
  the state the read left otherwise. The result does not depend on what the detach
  returned: it is success when the attach succeeds or \<open>vl\<close> was attached to the requested
  server, and the attach's error otherwise.
\<close>

theorem Attach_reads_then_detaches_elsewhere_then_attaches:
  assumes "fst (svcGetByID b (ID volume) (remote w)) = (Some vl, None)"
  shows "calls (snd (Attach b volume server w)) =
           calls w @ [CallGetByID (ID volume)]
             @ (if \<exists>sv. Server vl = Some sv \<and> ServerID sv \<noteq> ServerID server
                then [CallDetach volume] else [])
             @ [CallAttach volume server]
       \<and> fst (Attach b volume server w) =
           (let s1 = snd (svcGetByID b (ID volume) (remote w));
                s2 = (if \<exists>sv. Server vl = Some sv \<and> ServerID sv \<noteq> ServerID server
                      then snd (svcDetach b volume s1) else s1);
                attachErr = fst (svcAttach b volume server s2)
            in Return (if attachErr = None
                          \<or> (\<exists>sv. Server vl = Some sv \<and> ServerID sv = ServerID server)
                       then None else attachErr))
       \<and> remote (snd (Attach b volume server w)) =
           (let s1 = snd (svcGetByID b (ID volume) (remote w));
                s2 = (if \<exists>sv. Server vl = Some sv \<and> ServerID sv \<noteq> ServerID server
                      then snd (svcDetach b volume s1) else s1)
            in snd (svcAttach b volume server s2))"
proof (cases "\<exists>sv. Server vl = Some sv \<and> ServerID sv \<noteq> ServerID server")
  case True
  then show ?thesis
    unfolding Attach_pre_read_volume [OF assms] Let_def
    by (simp only: if_True fst_conv snd_conv backend_simps) simp
next
  case False
  then show ?thesis
    unfolding Attach_pre_read_volume [OF assms] Let_def
    by (simp only: if_False fst_conv snd_conv backend_simps) simp
qed

theorem Attach_reads_then_detaches_elsewhere_then_attaches_witness:
  "fst (svcGetByID sanityFailingAttach (ID volumeAt42) [volumeAt42]) = (Some volumeAt42, None)
   \<and> fst (Attach sanityFailingAttach volumeAt42 \<lparr>ServerID = 42\<rparr>
            \<lparr>remote = [volumeAt42], calls = []\<rparr>) = Return None
   \<and> calls (snd (Attach sanityFailingAttach volumeAt42 \<lparr>ServerID = 42\<rparr>
                   \<lparr>remote = [volumeAt42], calls = []\<rparr>))
       = [CallGetByID 1, CallAttach volumeAt42 \<lparr>ServerID = 42\<rparr>]
   \<and> fst (Attach sanityFailingAttach volumeAt42 \<lparr>ServerID = 7\<rparr>
            \<lparr>remote = [volumeAt42], calls = []\<rparr>) = Return (Some ErrAttachLimitReached)
   \<and> calls (snd (Attach sanityFailingAttach volumeAt42 \<lparr>ServerID = 7\<rparr>
                   \<lparr>remote = [volumeAt42], calls = []\<rparr>))
       = [CallGetByID 1, CallDetach volumeAt42, CallAttach volumeAt42 \<lparr>ServerID = 7\<rparr>]
   \<and> fst (svcGetByID (recordingService (Some volumeAt42) None) (ID volumeAt42) [])
       = (Some volumeAt42, None)
   \<and> fst (Attach (recordingService (Some volumeAt42) None) volumeAt42 \<lparr>ServerID = 7\<rparr>
            \<lparr>remote = [], calls = []\<rparr>) = Return None
   \<and> remote (snd (Attach (recordingService (Some volumeAt42) None) volumeAt42 \<lparr>ServerID = 7\<rparr>
                    \<lparr>remote = [], calls = []\<rparr>))
       = [CallGetByID 1, CallDetach volumeAt42, CallAttach volumeAt42 \<lparr>ServerID = 7\<rparr>]
   \<and> remote (snd (Attach (recordingService (Some volumeAt42) None) volumeAt42 \<lparr>ServerID = 42\<rparr>
                    \<lparr>remote = [], calls = []\<rparr>))
       = [CallGetByID 1, CallAttach volumeAt42 \<lparr>ServerID = 42\<rparr>]"
proof -
  have pre: "fst (svcGetByID sanityFailingAttach (ID volumeAt42)
                    (remote \<lparr>remote = [volumeAt42], calls = []\<rparr>)) = (Some volumeAt42, None)"
    by (simp add: sanityFailingAttach_def sanityGetByID_def)
  have rec: "fst (svcGetByID (recordingService (Some volumeAt42) None) (ID volumeAt42)
                    (remote \<lparr>remote = [], calls = []\<rparr>)) = (Some volumeAt42, None)"
    by (simp add: recordingService_def)
  have sv: "Server volumeAt42 = Some \<lparr>ServerID = 42\<rparr>" "ID volumeAt42 = 1"
    by (simp_all add: volumeAt42_def)
  show ?thesis
    using pre rec
      Attach_reads_then_detaches_elsewhere_then_attaches [OF pre, of "\<lparr>ServerID = 42\<rparr>"]
      Attach_reads_then_detaches_elsewhere_then_attaches [OF pre, of "\<lparr>ServerID = 7\<rparr>"]
      Attach_reads_then_detaches_elsewhere_then_attaches [OF rec, of "\<lparr>ServerID = 42\<rparr>"]
      Attach_reads_then_detaches_elsewhere_then_attaches [OF rec, of "\<lparr>ServerID = 7\<rparr>"]
    by (simp add: sv Let_def sanityFailingAttach_def sanityGetByID_def recordingService_def)
qed

section \<open>Create on a name that is taken\<close>

lemma Create_already_exists:
  assumes "snd (fst (svcCreate b opts (remote w))) = Some ErrVolumeAlreadyExists"
  shows "Create b opts w =
     (let w1 = snd (backendCreate b opts w);
          r = fst (backendGetByName b (OptName opts) w1);
          w2 = snd (backendGetByName b (OptName opts) w1)
      in if snd r \<noteq> None then (Return (None, snd r), w2)
         else
           (case fst r of
              None \<Rightarrow> (Return (None, Some ErrVolumeAlreadyExists), w2)
            | Some ev \<Rightarrow>
                if MinSize opts \<le> Size ev \<and> (0 < MaxSize opts \<longrightarrow> Size ev \<le> MaxSize opts)
                   \<and> Location ev = OptLocation opts
                then (Return (Some ev, None), w2)
                else (Return (None, Some ErrVolumeAlreadyExists), w2)))"
proof -
  have "snd (fst (backendCreate b opts w)) = Some ErrVolumeAlreadyExists"
    using assms by (simp add: backend_simps)
  then show ?thesis
    by (auto simp add: Create_def split_beta Let_def split: option.splits)
qed

text \<open>
  Claim C1. When the backend create reports \<open>ErrVolumeAlreadyExists\<close> and the lookup by
  name returns the existing volume \<open>ev\<close>, \<^verbatim>\<open>IdempotentService.Create\<close> has called the backend
  create and then \<^verbatim>\<open>GetByName\<close>; it returns \<open>ev\<close> as success if and only if the size of
  \<open>ev\<close> is at least \<open>MinSize\<close>, does not exceed \<open>MaxSize\<close> when \<open>MaxSize\<close> is positive, and
  the location of \<open>ev\<close> is the requested one; otherwise it fails with
  \<open>ErrVolumeAlreadyExists\<close>.
\<close>

theorem Create_existing_volume_validated:
  assumes "snd (fst (svcCreate b opts (remote w))) = Some ErrVolumeAlreadyExists"
      and "fst (svcGetByName b (OptName opts) (snd (svcCreate b opts (remote w)))) = (Some ev, None)"
  shows "calls (snd (Create b opts w)) = calls w @ [CallCreate opts, CallGetByName (OptName opts)]
       \<and> (fst (Create b opts w) = Return (Some ev, None)) =
           (MinSize opts \<le> Size ev \<and> (0 < MaxSize opts \<longrightarrow> Size ev \<le> MaxSize opts)
            \<and> Location ev = OptLocation opts)
       \<and> (fst (Create b opts w) \<noteq> Return (Some ev, None) \<longrightarrow>
            fst (Create b opts w) = Return (None, Some ErrVolumeAlreadyExists))"
  using assms(2)
  by (simp add: Create_already_exists [OF assms(1)] Let_def backend_simps)

theorem Create_existing_volume_validated_witness:
  "snd (fst (svcCreate sanityVolumeService optsX [volumeX10])) = Some ErrVolumeAlreadyExists
   \<and> fst (svcGetByName sanityVolumeService (OptName optsX) [volumeX10]) = (Some volumeX10, None)
   \<and> fst (Create sanityVolumeService optsX \<lparr>remote = [volumeX10], calls = []\<rparr>)
       = Return (Some volumeX10, None)
   \<and> calls (snd (Create sanityVolumeService optsX \<lparr>remote = [volumeX10], calls = []\<rparr>))
       = [CallCreate optsX, CallGetByName ''X'']
   \<and> snd (fst (svcCreate sanityVolumeService optsX [volumeX])) = Some ErrVolumeAlreadyExists
   \<and> fst (svcGetByName sanityVolumeService (OptName optsX) [volumeX]) = (Some volumeX, None)
   \<and> fst (Create sanityVolumeService optsX \<lparr>remote = [volumeX], calls = []\<rparr>)
       = Return (None, Some ErrVolumeAlreadyExists)"
proof -
  have c10: "snd (fst (svcCreate sanityVolumeService optsX
                         (remote \<lparr>remote = [volumeX10], calls = []\<rparr>))) = Some ErrVolumeAlreadyExists"
    by (simp add: sanityCreate_def optsX_def volumeX10_def)
  have g10: "fst (svcGetByName sanityVolumeService (OptName optsX)
                    (snd (svcCreate sanityVolumeService optsX
                            (remote \<lparr>remote = [volumeX10], calls = []\<rparr>)))) = (Some volumeX10, None)"
    by (simp add: sanityCreate_def sanityGetByName_def optsX_def volumeX10_def)
  have c5: "snd (fst (svcCreate sanityVolumeService optsX
                        (remote \<lparr>remote = [volumeX], calls = []\<rparr>))) = Some ErrVolumeAlreadyExists"
    by (simp add: sanityCreate_def optsX_def volumeX_def)
  have g5: "fst (svcGetByName sanityVolumeService (OptName optsX)
                   (snd (svcCreate sanityVolumeService optsX
                           (remote \<lparr>remote = [volumeX], calls = []\<rparr>)))) = (Some volumeX, None)"
    by (simp add: sanityCreate_def sanityGetByName_def optsX_def volumeX_def)
  have sizes: "Size volumeX10 = 10" "Size volumeX = 5" "Location volumeX10 = ''fsn1''"
    "MinSize optsX = 10" "MaxSize optsX = 0" "OptLocation optsX = ''fsn1''" "OptName optsX = ''X''"
    "Name volumeX10 = ''X''" "Name volumeX = ''X''" "Location volumeX = ''fsn1''"
    by (simp_all add: volumeX10_def volumeX_def optsX_def)
  show ?thesis
    using c10 g10 c5 g5
      Create_existing_volume_validated [OF c10 g10]
      Create_existing_volume_validated [OF c5 g5]
    by (simp add: sizes sanityCreate_def sanityGetByName_def)
qed

text \<open>
  Claim C10. When the backend create reports \<open>ErrVolumeAlreadyExists\<close>, the backend calls
  of \<^verbatim>\<open>IdempotentService.Create\<close> are that create and one \<^verbatim>\<open>GetByName\<close>, nothing else; the
  remote state is the one the lookup left; the call does not panic; and a volume it
  returns is the one the lookup returned, with no error.
\<close>

theorem Create_conflict_path_only_reads:
  assumes "snd (fst (svcCreate b opts (remote w))) = Some ErrVolumeAlreadyExists"
  shows "calls (snd (Create b opts w)) = calls w @ [CallCreate opts, CallGetByName (OptName opts)]
       \<and> remote (snd (Create b opts w)) =
           snd (svcGetByName b (OptName opts) (snd (svcCreate b opts (remote w))))
       \<and> fst (Create b opts w) \<noteq> Panic
       \<and> (\<forall>v err. fst (Create b opts w) = Return (Some v, err) \<longrightarrow>
            err = None
            \<and> fst (svcGetByName b (OptName opts) (snd (svcCreate b opts (remote w)))) = (Some v, None))"
  by (auto simp add: Create_already_exists [OF assms] Let_def backend_simps prod_eq_iff
      split: option.splits)

theorem Create_conflict_path_only_reads_witness:
  "snd (fst (svcCreate sanityVolumeService optsX [volumeX10])) = Some ErrVolumeAlreadyExists
   \<and> calls (snd (Create sanityVolumeService optsX \<lparr>remote = [volumeX10], calls = []\<rparr>))
       = [CallCreate optsX, CallGetByName ''X'']
   \<and> remote (snd (Create sanityVolumeService optsX \<lparr>remote = [volumeX10], calls = []\<rparr>))
       = [volumeX10]
   \<and> fst (Create sanityVolumeService optsX \<lparr>remote = [volumeX10], calls = []\<rparr>) \<noteq> Panic"
proof -
  have c10: "snd (fst (svcCreate sanityVolumeService optsX
                         (remote \<lparr>remote = [volumeX10], calls = []\<rparr>))) = Some ErrVolumeAlreadyExists"
    by (simp add: sanityCreate_def optsX_def volumeX10_def)
  have names: "OptName optsX = ''X''" "Name volumeX10 = ''X''"
    by (simp_all add: volumeX10_def optsX_def)
  show ?thesis
    using c10 Create_conflict_path_only_reads [OF c10]
    by (simp add: names sanityCreate_def sanityGetByName_def)
qed

lemma Create_lookup_nil_already_exists:
  assumes "snd (fst (svcCreate b opts (remote w))) = Some ErrVolumeAlreadyExists"
      and "fst (svcGetByName b (OptName opts) (snd (svcCreate b opts (remote w)))) = (None, None)"
  shows "fst (Create b opts w) = Return (None, Some ErrVolumeAlreadyExists)"
  using assms(2) by (simp add: Create_already_exists [OF assms(1)] Let_def backend_simps)

lemma Create_lookup_error_propagated:
  assumes "snd (fst (svcCreate b opts (remote w))) = Some ErrVolumeAlreadyExists"
      and "snd (fst (svcGetByName b (OptName opts) (snd (svcCreate b opts (remote w))))) = Some e"
  shows "fst (Create b opts w) = Return (None, Some e)"
  using assms(2) by (simp add: Create_already_exists [OF assms(1)] Let_def backend_simps)

text \<open>
  Claim C5 says that \<^verbatim>\<open>IdempotentService.Create\<close> fails with \<open>ErrVolumeAlreadyExists\<close> when
  the backend create reported the name as taken and the volume is gone by the time of
  the lookup. The code does so only when \<^verbatim>\<open>GetByName\<close> returns a nil volume with a nil
  error. The in-memory backend reports a missing volume as \<open>ErrVolumeNotFound\<close>: when a
  concurrent delete removes the volume between the two calls, \<^verbatim>\<open>Create\<close> returns
  \<open>ErrVolumeNotFound\<close>. It has issued the create and one lookup, and no volume is left.
\<close>

theorem Create_vanished_volume_returns_not_found:
  "fst (Create sanityThenDelete optsX \<lparr>remote = [volumeX10], calls = []\<rparr>)
     = Return (None, Some ErrVolumeNotFound)
   \<and> calls (snd (Create sanityThenDelete optsX \<lparr>remote = [volumeX10], calls = []\<rparr>))
     = [CallCreate optsX, CallGetByName ''X'']
   \<and> remote (snd (Create sanityThenDelete optsX \<lparr>remote = [volumeX10], calls = []\<rparr>)) = []"
proof -
  have names: "OptName optsX = ''X''" "Name volumeX10 = ''X''"
    by (simp_all add: optsX_def volumeX10_def)
  have create: "svcCreate sanityThenDelete optsX [volumeX10]
                  = ((None, Some ErrVolumeAlreadyExists), [])"
    by (simp add: sanityThenDelete_def sanityCreateThenDelete_def sanityCreate_def
        sanityDelete_def names)
  have lookup: "svcGetByName sanityThenDelete ''X'' [] = ((None, Some ErrVolumeNotFound), [])"
    by (simp add: sanityThenDelete_def sanityGetByName_def)
  have taken: "snd (fst (svcCreate sanityThenDelete optsX
                           (remote \<lparr>remote = [volumeX10], calls = []\<rparr>))) = Some ErrVolumeAlreadyExists"
    by (simp add: create)
  show ?thesis
    unfolding Create_already_exists [OF taken] Let_def
    by (simp add: backend_simps create lookup names)
qed

section \<open>Create, twice, on the in-memory backend\<close>

lemma Create_remote:
  "remote (snd (Create b opts w)) =
     (if snd (fst (svcCreate b opts (remote w))) = Some ErrVolumeAlreadyExists
      then snd (svcGetByName b (OptName opts) (snd (svcCreate b opts (remote w))))
      else snd (svcCreate b opts (remote w)))"
  by (simp add: Create_def split_beta Let_def backend_simps split: option.splits)

lemma Create_result_remote_only:
  assumes "remote w = remote w'"
  shows "fst (Create b opts w) = fst (Create b opts w')"
  using assms
  by (simp add: Create_def split_beta Let_def backend_simps split: option.splits)

lemma sanityNameTaken_iff: "sanityNameTaken n s = (n \<in> set (map Name s))"
  by (induction s) auto

lemma sanityFindByName_append:
  "n \<notin> set (map Name s) \<Longrightarrow> Name v = n \<Longrightarrow> sanityFindByName n (s @ [v]) = Some v"
  by (induction s) auto

lemma sanityCreate_uniqueNames:
  "uniqueNames s \<Longrightarrow> uniqueNames (snd (sanityCreate opts s))"
  by (simp add: sanityCreate_def uniqueNames_def sanityNameTaken_iff Let_def)

lemma sanityGetByName_state: "snd (sanityGetByName n s) = s"
  by (simp add: sanityGetByName_def split: option.splits)

lemma Create_sanity_remote:
  "remote (snd (Create sanityVolumeService opts w)) = snd (sanityCreate opts (remote w))"
  by (simp add: Create_remote sanityGetByName_state)

lemma Create_sanity_taken_state:
  "sanityNameTaken (OptName opts) (remote w) \<Longrightarrow>
   remote (snd (Create sanityVolumeService opts w)) = remote w"
  by (simp add: Create_sanity_remote sanityCreate_def)

lemma Create_sanity_fresh:
  assumes "\<not> sanityNameTaken (OptName opts) (remote w)"
  shows "fst (Create sanityVolumeService opts w) =
           Return (Some \<lparr>ID = of_nat (length (remote w) + 1), Name = OptName opts,
                          Size = MinSize opts, Location = OptLocation opts, Server = None\<rparr>, None)"
  using assms
  by (simp add: Create_def backendCreate_def sanityCreate_def Let_def)

lemma Create_sanity_replay:
  assumes fresh: "\<not> sanityNameTaken (OptName opts) (remote w)"
  shows "fst (Create sanityVolumeService opts (snd (Create sanityVolumeService opts w))) =
           (if 0 < MaxSize opts \<and> MaxSize opts < MinSize opts
            then Return (None, Some ErrVolumeAlreadyExists)
            else fst (Create sanityVolumeService opts w))"
proof -
  define v where "v = \<lparr>ID = of_nat (length (remote w) + 1), Name = OptName opts,
              Size = MinSize opts, Location = OptLocation opts, Server = None\<rparr>"
  define w1 where "w1 = snd (Create sanityVolumeService opts w)"
  have fields: "Name v = OptName opts" "Size v = MinSize opts" "Location v = OptLocation opts"
    by (simp_all add: v_def)
  have first: "fst (Create sanityVolumeService opts w) = Return (Some v, None)"
    unfolding v_def using fresh by (rule Create_sanity_fresh)
  have s1: "remote w1 = remote w @ [v]"
    unfolding w1_def v_def using fresh
    by (simp add: Create_sanity_remote sanityCreate_def Let_def)
  have notin: "OptName opts \<notin> set (map Name (remote w))"
    using fresh by (simp add: sanityNameTaken_iff)
  have create: "sanityCreate opts (remote w1) = ((None, Some ErrVolumeAlreadyExists), remote w @ [v])"
    by (simp add: s1 sanityCreate_def sanityNameTaken_iff fields)
  have taken: "snd (fst (svcCreate sanityVolumeService opts (remote w1))) = Some ErrVolumeAlreadyExists"
    by (simp add: create)
  have found: "sanityFindByName (OptName opts) (remote w @ [v]) = Some v"
    using notin fields(1) by (rule sanityFindByName_append)
  have lookup: "sanityGetByName (OptName opts) (remote w @ [v]) = ((Some v, None), remote w @ [v])"
    by (simp add: sanityGetByName_def found)
  have "fst (Create sanityVolumeService opts w1) =
          (if 0 < MaxSize opts \<and> MaxSize opts < MinSize opts
           then Return (None, Some ErrVolumeAlreadyExists)
           else Return (Some v, None))"
    unfolding Create_already_exists [OF taken] Let_def
    by (simp add: backend_simps create lookup fields)
  then show ?thesis
    unfolding w1_def [symmetric] first .
qed

lemma Create_sanity_twice_same:
  assumes "MaxSize opts \<le> 0 \<or> MinSize opts \<le> MaxSize opts"
  shows "fst (Create sanityVolumeService opts (snd (Create sanityVolumeService opts w))) =
           fst (Create sanityVolumeService opts w)"
proof (cases "sanityNameTaken (OptName opts) (remote w)")
  case True
  then show ?thesis
    by (intro Create_result_remote_only Create_sanity_taken_state)
next
  case False
  then show ?thesis
    using assms by (auto simp add: Create_sanity_replay)
qed

lemma Create_sanity_returns_volume_without_error:
  "fst (Create sanityVolumeService opts w) = Return (Some v, err) \<Longrightarrow> err = None"
  by (auto simp add: Create_def backendCreate_def backendGetByName_def sanityCreate_def
      sanityGetByName_def Let_def split: if_splits option.splits)

lemma Create_sanity_uniqueNames:
  "uniqueNames (remote w) \<Longrightarrow> uniqueNames (remote (snd (Create sanityVolumeService opts w)))"
  by (simp add: Create_sanity_remote sanityCreate_uniqueNames)

lemma sanityNameTaken_find:
  "sanityNameTaken n s = (\<exists>ev. sanityFindByName n s = Some ev)"
  by (induction s) auto

lemma Create_sanity_fresh_world:
  assumes "\<not> sanityNameTaken (OptName opts) (remote w)"
  shows "Create sanityVolumeService opts w =
           (Return (Some \<lparr>ID = of_nat (length (remote w) + 1), Name = OptName opts,
                           Size = MinSize opts, Location = OptLocation opts, Server = None\<rparr>, None),
            \<lparr>remote = remote w @ [\<lparr>ID = of_nat (length (remote w) + 1), Name = OptName opts,
                           Size = MinSize opts, Location = OptLocation opts, Server = None\<rparr>],
             calls = calls w @ [CallCreate opts]\<rparr>)"
  using assms
  by (simp add: Create_def backendCreate_def sanityCreate_def Let_def)

lemma Create_sanity_taken_world:
  assumes "sanityFindByName (OptName opts) (remote w) = Some ev"
  shows "Create sanityVolumeService opts w =
           (if MinSize opts \<le> Size ev \<and> (0 < MaxSize opts \<longrightarrow> Size ev \<le> MaxSize opts)
               \<and> Location ev = OptLocation opts
            then Return (Some ev, None) else Return (None, Some ErrVolumeAlreadyExists),
            \<lparr>remote = remote w, calls = calls w @ [CallCreate opts, CallGetByName (OptName opts)]\<rparr>)"
proof -
  have taken: "sanityNameTaken (OptName opts) (remote w)"
    using assms by (simp add: sanityNameTaken_find)
  have create: "sanityCreate opts (remote w) = ((None, Some ErrVolumeAlreadyExists), remote w)"
    using taken by (simp add: sanityCreate_def)
  have lookup: "sanityGetByName (OptName opts) (remote w) = ((Some ev, None), remote w)"
    using assms by (simp add: sanityGetByName_def)
  have exists: "snd (fst (svcCreate sanityVolumeService opts (remote w))) = Some ErrVolumeAlreadyExists"
    by (simp add: create)
  show ?thesis
    unfolding Create_already_exists [OF exists] Let_def
    by (simp add: backendCreate_def backendGetByName_def create lookup)
qed

text \<open>
  Claim C3, as stated, fails in two ways. For a request whose maximum size is set and
  lies below its minimum size, the first \<^verbatim>\<open>Create\<close> on an empty backend returns a new
  volume of the minimum size, and the second \<^verbatim>\<open>Create\<close> rejects that volume as too large.
  And when the name is held by a volume that does not satisfy the request (the design
  document's conflict example: size 5, minimum size 10), neither call returns a volume.
\<close>

theorem Create_twice_min_above_max_counterexample:
  "fst (Create sanityVolumeService optsMinAboveMax \<lparr>remote = [], calls = []\<rparr>)
     = Return (Some \<lparr>ID = 1, Name = ''X'', Size = 10, Location = ''fsn1'', Server = None\<rparr>, None)
   \<and> fst (Create sanityVolumeService optsMinAboveMax
            (snd (Create sanityVolumeService optsMinAboveMax \<lparr>remote = [], calls = []\<rparr>)))
     = Return (None, Some ErrVolumeAlreadyExists)
   \<and> fst (Create sanityVolumeService optsX \<lparr>remote = [volumeX], calls = []\<rparr>)
     = Return (None, Some ErrVolumeAlreadyExists)
   \<and> fst (Create sanityVolumeService optsX
            (snd (Create sanityVolumeService optsX \<lparr>remote = [volumeX], calls = []\<rparr>)))
     = Return (None, Some ErrVolumeAlreadyExists)"
proof -
  have fresh: "\<not> sanityNameTaken (OptName optsMinAboveMax)
                   (remote \<lparr>remote = ([] :: sanity_state), calls = []\<rparr>)"
    by simp
  have inverted: "fst (Create sanityVolumeService optsMinAboveMax \<lparr>remote = [], calls = []\<rparr>)
     = Return (Some \<lparr>ID = 1, Name = ''X'', Size = 10, Location = ''fsn1'', Server = None\<rparr>, None)
   \<and> fst (Create sanityVolumeService optsMinAboveMax
            (snd (Create sanityVolumeService optsMinAboveMax \<lparr>remote = [], calls = []\<rparr>)))
     = Return (None, Some ErrVolumeAlreadyExists)"
    unfolding Create_sanity_replay [OF fresh] Create_sanity_fresh [OF fresh]
    by (simp add: optsMinAboveMax_def)
  have found: "sanityFindByName (OptName optsX) (remote \<lparr>remote = [volumeX], calls = cs\<rparr>)
                 = Some volumeX" for cs
    by (simp add: optsX_def volumeX_def)
  have small: "Size volumeX < MinSize optsX"
    by (simp add: optsX_def volumeX_def)
  have conflict: "Create sanityVolumeService optsX \<lparr>remote = [volumeX], calls = cs\<rparr>
     = (Return (None, Some ErrVolumeAlreadyExists),
        \<lparr>remote = [volumeX], calls = cs @ [CallCreate optsX, CallGetByName (OptName optsX)]\<rparr>)" for cs
    unfolding Create_sanity_taken_world [OF found] using small by simp
  show ?thesis
    using inverted by (simp add: conflict)
qed

text \<open>
  Claim C3, amended. On the in-memory backend, for every request whose maximum size is
  unset (not positive) or at least its minimum size, two calls of \<^verbatim>\<open>Create\<close> in a row
  return the same result, and a volume returned by the first call is returned by the
  second, with the same ID. When the name is free, both calls return a volume: the one
  the first call created, of the minimum size, and after the two calls the backend holds
  that one volume more; the backend has been called to create, to create again, and to
  look the name up. When the name is held by a volume, both calls return that volume if
  it satisfies the request and fail with \<open>ErrVolumeAlreadyExists\<close> if it does not, and the
  backend is left as it was. For every request, a backend in which no two volumes share
  a name is still so after the first call and after the second.
\<close>

theorem Create_twice_same_volume_when_range_valid:
  "(MaxSize opts \<le> 0 \<or> MinSize opts \<le> MaxSize opts \<longrightarrow>
      fst (Create sanityVolumeService opts (snd (Create sanityVolumeService opts w))) =
        fst (Create sanityVolumeService opts w)
      \<and> (\<forall>v err. fst (Create sanityVolumeService opts w) = Return (Some v, err) \<longrightarrow>
            (\<exists>v'. fst (Create sanityVolumeService opts (snd (Create sanityVolumeService opts w)))
                     = Return (Some v', None) \<and> ID v' = ID v))
      \<and> (\<not> sanityNameTaken (OptName opts) (remote w) \<longrightarrow>
            fst (Create sanityVolumeService opts w) =
              Return (Some \<lparr>ID = of_nat (length (remote w) + 1), Name = OptName opts,
                             Size = MinSize opts, Location = OptLocation opts, Server = None\<rparr>, None)
            \<and> fst (Create sanityVolumeService opts (snd (Create sanityVolumeService opts w))) =
              Return (Some \<lparr>ID = of_nat (length (remote w) + 1), Name = OptName opts,
                             Size = MinSize opts, Location = OptLocation opts, Server = None\<rparr>, None)
            \<and> remote (snd (Create sanityVolumeService opts (snd (Create sanityVolumeService opts w)))) =
              remote w @ [\<lparr>ID = of_nat (length (remote w) + 1), Name = OptName opts,
                            Size = MinSize opts, Location = OptLocation opts, Server = None\<rparr>]
            \<and> calls (snd (Create sanityVolumeService opts (snd (Create sanityVolumeService opts w)))) =
              calls w @ [CallCreate opts, CallCreate opts, CallGetByName (OptName opts)])
      \<and> (\<forall>ev. sanityFindByName (OptName opts) (remote w) = Some ev \<longrightarrow>
            sanityNameTaken (OptName opts) (remote w)
            \<and> fst (Create sanityVolumeService opts w) =
              (if MinSize opts \<le> Size ev \<and> (0 < MaxSize opts \<longrightarrow> Size ev \<le> MaxSize opts)
                  \<and> Location ev = OptLocation opts
               then Return (Some ev, None) else Return (None, Some ErrVolumeAlreadyExists))
            \<and> remote (snd (Create sanityVolumeService opts (snd (Create sanityVolumeService opts w)))) =
              remote w
            \<and> calls (snd (Create sanityVolumeService opts (snd (Create sanityVolumeService opts w)))) =
              calls w @ [CallCreate opts, CallGetByName (OptName opts),
                         CallCreate opts, CallGetByName (OptName opts)]))
   \<and> (sanityNameTaken (OptName opts) (remote w)
        = (\<exists>ev. sanityFindByName (OptName opts) (remote w) = Some ev))
   \<and> (uniqueNames (remote w) \<longrightarrow>
        uniqueNames (remote (snd (Create sanityVolumeService opts w)))
        \<and> uniqueNames (remote (snd (Create sanityVolumeService opts
                                       (snd (Create sanityVolumeService opts w))))))"
proof -
  let ?once = "Create sanityVolumeService opts w"
  let ?twice = "Create sanityVolumeService opts (snd ?once)"
  have unique: "uniqueNames (remote w) \<longrightarrow>
        uniqueNames (remote (snd ?once)) \<and> uniqueNames (remote (snd ?twice))"
    using Create_sanity_uniqueNames [of w opts] Create_sanity_uniqueNames [of "snd ?once" opts]
    by blast
  have split: "sanityNameTaken (OptName opts) (remote w)
        = (\<exists>ev. sanityFindByName (OptName opts) (remote w) = Some ev)"
    by (rule sanityNameTaken_find)
  have held: "sanityNameTaken (OptName opts) (remote w)
            \<and> fst ?once =
              (if MinSize opts \<le> Size ev \<and> (0 < MaxSize opts \<longrightarrow> Size ev \<le> MaxSize opts)
                  \<and> Location ev = OptLocation opts
               then Return (Some ev, None) else Return (None, Some ErrVolumeAlreadyExists))
            \<and> remote (snd ?twice) = remote w
            \<and> calls (snd ?twice) =
              calls w @ [CallCreate opts, CallGetByName (OptName opts),
                         CallCreate opts, CallGetByName (OptName opts)]"
    if found: "sanityFindByName (OptName opts) (remote w) = Some ev" for ev
  proof -
    have taken: "sanityNameTaken (OptName opts) (remote w)"
      using found split by blast
    have found1: "sanityFindByName (OptName opts) (remote (snd ?once)) = Some ev"
      using found by (simp add: Create_sanity_taken_world [OF found])
    have c1: "calls (snd ?once) = calls w @ [CallCreate opts, CallGetByName (OptName opts)]"
      and r1: "remote (snd ?once) = remote w"
      by (simp_all add: Create_sanity_taken_world [OF found])
    have "remote (snd ?twice) = remote w"
      and "calls (snd ?twice) = calls w @ [CallCreate opts, CallGetByName (OptName opts),
                         CallCreate opts, CallGetByName (OptName opts)]"
      unfolding Create_sanity_taken_world [OF found1] by (simp_all add: c1 r1)
    moreover have "fst ?once =
              (if MinSize opts \<le> Size ev \<and> (0 < MaxSize opts \<longrightarrow> Size ev \<le> MaxSize opts)
                  \<and> Location ev = OptLocation opts
               then Return (Some ev, None) else Return (None, Some ErrVolumeAlreadyExists))"
      unfolding Create_sanity_taken_world [OF found] by simp
    ultimately show ?thesis
      using taken by (intro conjI) assumption+
  qed
  have ranged: "fst ?twice = fst ?once
      \<and> (\<forall>v err. fst ?once = Return (Some v, err) \<longrightarrow>
            (\<exists>v'. fst ?twice = Return (Some v', None) \<and> ID v' = ID v))
      \<and> (\<not> sanityNameTaken (OptName opts) (remote w) \<longrightarrow>
            fst ?once =
              Return (Some \<lparr>ID = of_nat (length (remote w) + 1), Name = OptName opts,
                             Size = MinSize opts, Location = OptLocation opts, Server = None\<rparr>, None)
            \<and> fst ?twice =
              Return (Some \<lparr>ID = of_nat (length (remote w) + 1), Name = OptName opts,
                             Size = MinSize opts, Location = OptLocation opts, Server = None\<rparr>, None)
            \<and> remote (snd ?twice) =
              remote w @ [\<lparr>ID = of_nat (length (remote w) + 1), Name = OptName opts,
                            Size = MinSize opts, Location = OptLocation opts, Server = None\<rparr>]
            \<and> calls (snd ?twice) =
              calls w @ [CallCreate opts, CallCreate opts, CallGetByName (OptName opts)])"
    if range: "MaxSize opts \<le> 0 \<or> MinSize opts \<le> MaxSize opts"
  proof -
    have same: "fst ?twice = fst ?once"
      using range by (rule Create_sanity_twice_same)
    have ids: "\<exists>v'. fst ?twice = Return (Some v', None) \<and> ID v' = ID v"
      if first: "fst ?once = Return (Some v, err)" for v err
    proof -
      have "err = None"
        using first by (rule Create_sanity_returns_volume_without_error)
      then show ?thesis
        using same first by simp
    qed
    have free: "fst ?once =
              Return (Some \<lparr>ID = of_nat (length (remote w) + 1), Name = OptName opts,
                             Size = MinSize opts, Location = OptLocation opts, Server = None\<rparr>, None)
            \<and> fst ?twice =
              Return (Some \<lparr>ID = of_nat (length (remote w) + 1), Name = OptName opts,
                             Size = MinSize opts, Location = OptLocation opts, Server = None\<rparr>, None)
            \<and> remote (snd ?twice) =
              remote w @ [\<lparr>ID = of_nat (length (remote w) + 1), Name = OptName opts,
                            Size = MinSize opts, Location = OptLocation opts, Server = None\<rparr>]
            \<and> calls (snd ?twice) =
              calls w @ [CallCreate opts, CallCreate opts, CallGetByName (OptName opts)]"
      if fresh: "\<not> sanityNameTaken (OptName opts) (remote w)"
    proof -
      define v where "v = \<lparr>ID = of_nat (length (remote w) + 1), Name = OptName opts,
              Size = MinSize opts, Location = OptLocation opts, Server = None\<rparr>"
      have once: "?once = (Return (Some v, None),
                            \<lparr>remote = remote w @ [v], calls = calls w @ [CallCreate opts]\<rparr>)"
        unfolding v_def using fresh by (rule Create_sanity_fresh_world)
      have name: "Name v = OptName opts"
        by (simp add: v_def)
      have notin: "OptName opts \<notin> set (map Name (remote w))"
        using fresh by (simp add: sanityNameTaken_iff)
      have found1: "sanityFindByName (OptName opts) (remote (snd ?once)) = Some v"
        unfolding once using sanityFindByName_append [OF notin name] by simp
      have r2: "remote (snd ?twice) = remote w @ [v]"
        and c2: "calls (snd ?twice) =
                   calls w @ [CallCreate opts, CallCreate opts, CallGetByName (OptName opts)]"
        unfolding Create_sanity_taken_world [OF found1] by (simp_all add: once)
      have f1: "fst ?once = Return (Some v, None)"
        by (simp add: once)
      have f2: "fst ?twice = Return (Some v, None)"
        using same f1 by simp
      show ?thesis
        using f1 f2 r2 c2 unfolding v_def by (intro conjI) assumption+
    qed
    show ?thesis
      using same ids free by blast
  qed
  show ?thesis
    using ranged held split unique by blast
qed

theorem Create_twice_same_volume_when_range_valid_witness:
  "MaxSize optsX \<le> 0
   \<and> \<not> sanityNameTaken (OptName optsX) (remote \<lparr>remote = ([] :: sanity_state), calls = []\<rparr>)
   \<and> uniqueNames (remote \<lparr>remote = ([] :: sanity_state), calls = []\<rparr>)
   \<and> fst (Create sanityVolumeService optsX \<lparr>remote = [], calls = []\<rparr>)
       = Return (Some volumeX10, None)
   \<and> fst (Create sanityVolumeService optsX
            (snd (Create sanityVolumeService optsX \<lparr>remote = [], calls = []\<rparr>)))
       = Return (Some volumeX10, None)
   \<and> remote (snd (Create sanityVolumeService optsX
                    (snd (Create sanityVolumeService optsX \<lparr>remote = [], calls = []\<rparr>))))
       = [volumeX10]
   \<and> calls (snd (Create sanityVolumeService optsX
                   (snd (Create sanityVolumeService optsX \<lparr>remote = [], calls = []\<rparr>))))
       = [CallCreate optsX, CallCreate optsX, CallGetByName ''X'']
   \<and> uniqueNames (remote (snd (Create sanityVolumeService optsX
                                  (snd (Create sanityVolumeService optsX \<lparr>remote = [], calls = []\<rparr>)))))
   \<and> sanityFindByName (OptName optsX) (remote \<lparr>remote = [volumeX10], calls = []\<rparr>) = Some volumeX10
   \<and> fst (Create sanityVolumeService optsX \<lparr>remote = [volumeX10], calls = []\<rparr>)
       = Return (Some volumeX10, None)
   \<and> fst (Create sanityVolumeService optsX
            (snd (Create sanityVolumeService optsX \<lparr>remote = [volumeX10], calls = []\<rparr>)))
       = Return (Some volumeX10, None)
   \<and> remote (snd (Create sanityVolumeService optsX
                    (snd (Create sanityVolumeService optsX \<lparr>remote = [volumeX10], calls = []\<rparr>))))
       = [volumeX10]"
proof -
  have fresh: "\<not> sanityNameTaken (OptName optsX)
                   (remote \<lparr>remote = ([] :: sanity_state), calls = []\<rparr>)"
    by simp
  have range: "MaxSize optsX \<le> 0"
    by (simp add: optsX_def)
  have unique: "uniqueNames (remote \<lparr>remote = ([] :: sanity_state), calls = []\<rparr>)"
    by (simp add: uniqueNames_def)
  have new: "\<lparr>ID = of_nat (length (remote \<lparr>remote = ([] :: sanity_state), calls = []\<rparr>) + 1),
              Name = OptName optsX, Size = MinSize optsX, Location = OptLocation optsX,
              Server = None\<rparr> = volumeX10"
    by (simp add: optsX_def volumeX10_def)
  have found: "sanityFindByName (OptName optsX) (remote \<lparr>remote = [volumeX10], calls = []\<rparr>)
                 = Some volumeX10"
    by (simp add: optsX_def volumeX10_def)
  have fits: "MinSize optsX \<le> Size volumeX10" "Location volumeX10 = OptLocation optsX"
    by (simp_all add: optsX_def volumeX10_def)
  have name: "OptName optsX = ''X''"
    by (simp add: optsX_def)
  have empty: "Create sanityVolumeService optsX \<lparr>remote = [], calls = []\<rparr> =
                 (Return (Some volumeX10, None),
                  \<lparr>remote = [volumeX10], calls = [CallCreate optsX]\<rparr>)"
    using Create_sanity_fresh_world [OF fresh] unfolding new by simp
  from Create_twice_same_volume_when_range_valid [of optsX "\<lparr>remote = [], calls = []\<rparr>"]
  have step: "fst (Create sanityVolumeService optsX
                     (snd (Create sanityVolumeService optsX \<lparr>remote = [], calls = []\<rparr>)))
                = Return (Some volumeX10, None)
     \<and> remote (snd (Create sanityVolumeService optsX
                    (snd (Create sanityVolumeService optsX \<lparr>remote = [], calls = []\<rparr>))))
       = remote \<lparr>remote = ([] :: sanity_state), calls = []\<rparr> @ [volumeX10]
     \<and> calls (snd (Create sanityVolumeService optsX
                   (snd (Create sanityVolumeService optsX \<lparr>remote = [], calls = []\<rparr>))))
       = calls \<lparr>remote = ([] :: sanity_state), calls = []\<rparr>
           @ [CallCreate optsX, CallCreate optsX, CallGetByName (OptName optsX)]"
    and uniq2: "uniqueNames (remote (snd (Create sanityVolumeService optsX
                                  (snd (Create sanityVolumeService optsX \<lparr>remote = [], calls = []\<rparr>)))))"
    using range fresh unique unfolding new by blast+
  have free: "fst (Create sanityVolumeService optsX
                     (snd (Create sanityVolumeService optsX \<lparr>remote = [], calls = []\<rparr>)))
                = Return (Some volumeX10, None)
     \<and> remote (snd (Create sanityVolumeService optsX
                    (snd (Create sanityVolumeService optsX \<lparr>remote = [], calls = []\<rparr>))))
       = [volumeX10]
     \<and> calls (snd (Create sanityVolumeService optsX
                   (snd (Create sanityVolumeService optsX \<lparr>remote = [], calls = []\<rparr>))))
       = [CallCreate optsX, CallCreate optsX, CallGetByName (OptName optsX)]"
    using step by simp
  from Create_twice_same_volume_when_range_valid [of optsX "\<lparr>remote = [volumeX10], calls = []\<rparr>"]
  have held: "fst (Create sanityVolumeService optsX \<lparr>remote = [volumeX10], calls = []\<rparr>)
                = Return (Some volumeX10, None)
     \<and> fst (Create sanityVolumeService optsX
            (snd (Create sanityVolumeService optsX \<lparr>remote = [volumeX10], calls = []\<rparr>)))
       = Return (Some volumeX10, None)
     \<and> remote (snd (Create sanityVolumeService optsX
                    (snd (Create sanityVolumeService optsX \<lparr>remote = [volumeX10], calls = []\<rparr>))))
       = [volumeX10]"
    using range found fits by simp
  show ?thesis
    using range fresh unique found free uniq2 held by (simp add: empty name)
qed

section \<open>Process startup: readiness and the socket file\<close>

lemma getServerID_events: "fst (getServerID e) = [] \<or> fst (getServerID e) = [EvHttpGet]"
  by (simp add: getServerID_def Let_def split: option.splits)

lemma main_rejects_endpoint:
  "\<not> prefix ''unix://'' (getenv e ''CSI_ENDPOINT'') \<Longrightarrow> main e = ([], Exit 2)"
  by (simp add: main_def Let_def)

lemma main_remove_failed:
  "prefix ''unix://'' (getenv e ''CSI_ENDPOINT'') \<Longrightarrow>
   osRemove e (drop 7 (getenv e ''CSI_ENDPOINT'')) = RemoveFailed \<Longrightarrow>
   main e = ([EvRemove (drop 7 (getenv e ''CSI_ENDPOINT''))], Exit 1)"
  by (auto simp add: main_def Let_def)

text \<open>
  The runs of \<^verbatim>\<open>main\<close> that pass the endpoint check, by how far they get: they stop
  before the server is fetched, or after the fetch, or they go on to listen.
\<close>

lemma main_shape:
  assumes "prefix ''unix://'' (getenv e ''CSI_ENDPOINT'')"
  obtains
    (stopped) g where "g = [] \<or> g = [EvHttpGet]"
      and "fst (main e) = EvRemove (drop 7 (getenv e ''CSI_ENDPOINT'')) # g"
  | (fetched) g i where "g = [] \<or> g = [EvHttpGet]"
      and "fst (main e) = EvRemove (drop 7 (getenv e ''CSI_ENDPOINT'')) # g @ [EvServerGetByID i]"
      and "snd (getServerID e) = Inr i"
      and "snd (serverGetByID e i) \<noteq> None \<longrightarrow> snd (main e) = Exit 1"
  | (listening) g i post where "g = [] \<or> g = [EvHttpGet]"
      and "fst (main e) = EvRemove (drop 7 (getenv e ''CSI_ENDPOINT'')) # g
             @ [EvServerGetByID i, EvListen (drop 7 (getenv e ''CSI_ENDPOINT''))] @ post"
      and "post = [] \<or> post = [EvSetReady True, EvServe]"
      and "snd (getServerID e) = Inr i"
      and "snd (serverGetByID e i) = None"
      and "osRemove e (drop 7 (getenv e ''CSI_ENDPOINT'')) \<noteq> RemoveFailed"
proof -
  let ?p = "drop 7 (getenv e ''CSI_ENDPOINT'')"
  have ne: "getenv e ''CSI_ENDPOINT'' \<noteq> []"
    using assms by auto
  obtain g sid where gs: "getServerID e = (g, sid)"
    by (cases "getServerID e")
  have g: "g = [] \<or> g = [EvHttpGet]"
    using getServerID_events [of e] gs by simp
  show thesis
  proof (cases "osRemove e ?p = RemoveFailed \<or> getenv e ''HCLOUD_TOKEN'' = []")
    case True
    then have "fst (main e) = EvRemove ?p # []"
      by (auto simp add: main_def Let_def assms ne)
    then show thesis
      using stopped [of "[]"] by simp
  next
    case run: False
    show thesis
    proof (cases sid)
      case (Inl status)
      then have "fst (main e) = EvRemove ?p # g"
        using run by (simp add: main_def Let_def assms ne gs)
      then show thesis
        using stopped [of g] g by simp
    next
      case (Inr i)
      obtain server err where fetch: "serverGetByID e i = (server, err)"
        by (cases "serverGetByID e i")
      have sid: "snd (getServerID e) = Inr i"
        using gs Inr by simp
      show thesis
      proof (cases "err = None \<and> (\<exists>srv dc loc. server = Some srv \<and> Datacenter srv = Some dc
                      \<and> DatacenterLocation dc = Some loc)")
        case False
        then have "fst (main e) = EvRemove ?p # g @ [EvServerGetByID i]"
          and "err \<noteq> None \<longrightarrow> snd (main e) = Exit 1"
          using run by (auto simp add: main_def Let_def assms ne gs Inr fetch split: option.splits)
        then show thesis
          using fetched [of g i] g sid fetch by simp
      next
        case True
        then have "fst (main e) = EvRemove ?p # g @ [EvServerGetByID i, EvListen ?p]
                     @ (if netListen e ?p \<noteq> None then [] else [EvSetReady True, EvServe])"
          using run by (auto simp add: main_def Let_def assms ne gs Inr fetch)
        then show thesis
          using listening [of g i "if netListen e ?p \<noteq> None then [] else [EvSetReady True, EvServe]"]
            g sid fetch True run by simp
      qed
    qed
  qed
qed

lemma main_exampleEnv:
  "main exampleEnv =
     ([EvRemove ''/run/csi.sock'', EvServerGetByID 42, EvListen ''/run/csi.sock'',
       EvSetReady True, EvServe], Returned)"
  by (simp add: main_def getServerID_def exampleEnv_def Let_def)

lemma main_exampleEnvFetchFails:
  "main exampleEnvFetchFails = ([EvRemove ''/run/csi.sock'', EvServerGetByID 42], Exit 1)"
  by (simp add: main_def getServerID_def exampleEnvFetchFails_def exampleEnv_def Let_def)

lemma main_exampleEnvRemoveFails:
  "main exampleEnvRemoveFails = ([EvRemove ''/run/csi.sock''], Exit 1)"
  by (simp add: main_def getServerID_def exampleEnvRemoveFails_def exampleEnv_def Let_def)

text \<open>
  Claim C7. In every run of \<^verbatim>\<open>main\<close>, a \<^verbatim>\<open>SetReady\<close> event comes after the fetch of the
  plugin's own server, for the ID that \<^verbatim>\<open>getServerID\<close> returned, and that fetch returned
  no error. A run in which the fetch returns an error exits with status 1 and has no
  \<^verbatim>\<open>SetReady\<close> event.
\<close>

theorem main_ready_only_after_server_fetch:
  "(\<forall>r. EvSetReady r \<in> set (fst (main e)) \<longrightarrow>
      (\<exists>i pre post. fst (main e) = pre @ EvServerGetByID i # post
         \<and> (\<forall>r'. EvSetReady r' \<notin> set pre)
         \<and> snd (getServerID e) = Inr i
         \<and> snd (serverGetByID e i) = None))
   \<and> (\<forall>i. EvServerGetByID i \<in> set (fst (main e)) \<and> snd (serverGetByID e i) \<noteq> None \<longrightarrow>
         snd (main e) = Exit 1 \<and> (\<forall>r. EvSetReady r \<notin> set (fst (main e))))"
proof (cases "prefix ''unix://'' (getenv e ''CSI_ENDPOINT'')")
  case False
  then have "main e = ([], Exit 2)"
    by (rule main_rejects_endpoint)
  then show ?thesis
    by simp
next
  case True
  let ?p = "drop 7 (getenv e ''CSI_ENDPOINT'')"
  from True show ?thesis
  proof (cases rule: main_shape)
    case (stopped g)
    have "\<forall>r. EvSetReady r \<notin> set (fst (main e))"
      and "\<forall>j. EvServerGetByID j \<notin> set (fst (main e))"
      using stopped by auto
    then show ?thesis
      by simp
  next
    case (fetched g i)
    have nr: "\<forall>r. EvSetReady r \<notin> set (fst (main e))"
      using fetched(1,2) by auto
    have only: "\<forall>j. EvServerGetByID j \<in> set (fst (main e)) \<longrightarrow> j = i"
      using fetched(1,2) by auto
    show ?thesis
      using nr only fetched(4) by auto
  next
    case (listening g i post)
    have split: "fst (main e) = (EvRemove ?p # g) @ EvServerGetByID i # (EvListen ?p # post)"
      using listening(2) by simp
    have pre: "\<forall>r'. EvSetReady r' \<notin> set (EvRemove ?p # g)"
      using listening(1) by auto
    have ready: "\<exists>i pre post. fst (main e) = pre @ EvServerGetByID i # post
         \<and> (\<forall>r'. EvSetReady r' \<notin> set pre)
         \<and> snd (getServerID e) = Inr i
         \<and> snd (serverGetByID e i) = None"
      by (intro exI [of _ i] exI [of _ "EvRemove ?p # g"] exI [of _ "EvListen ?p # post"] conjI)
         (rule split, rule pre, rule listening(4), rule listening(5))
    have only: "\<forall>j. EvServerGetByID j \<in> set (fst (main e)) \<longrightarrow> j = i"
      using listening(1,3) unfolding listening(2) by auto
    have failed: "\<not> (EvServerGetByID j \<in> set (fst (main e))
                     \<and> snd (serverGetByID e j) \<noteq> None)" for j
      using only [rule_format, of j] listening(5) by auto
    show ?thesis
    proof (intro conjI allI impI)
      show "\<exists>i pre post. fst (main e) = pre @ EvServerGetByID i # post
         \<and> (\<forall>r'. EvSetReady r' \<notin> set pre)
         \<and> snd (getServerID e) = Inr i
         \<and> snd (serverGetByID e i) = None"
        by (rule ready)
    next
      fix j
      assume "EvServerGetByID j \<in> set (fst (main e)) \<and> snd (serverGetByID e j) \<noteq> None"
      then show "snd (main e) = Exit 1" and "\<And>r. EvSetReady r \<notin> set (fst (main e))"
        using failed [of j] by simp_all
    qed
  qed
qed

theorem main_ready_only_after_server_fetch_witness:
  "EvSetReady True \<in> set (fst (main exampleEnv))
   \<and> (\<exists>i pre post. fst (main exampleEnv) = pre @ EvServerGetByID i # post
         \<and> (\<forall>r'. EvSetReady r' \<notin> set pre)
         \<and> snd (getServerID exampleEnv) = Inr i
         \<and> snd (serverGetByID exampleEnv i) = None)
   \<and> EvServerGetByID 42 \<in> set (fst (main exampleEnvFetchFails))
   \<and> snd (serverGetByID exampleEnvFetchFails 42) \<noteq> None
   \<and> snd (main exampleEnvFetchFails) = Exit 1
   \<and> (\<forall>r. EvSetReady r \<notin> set (fst (main exampleEnvFetchFails)))"
proof -
  have ready: "EvSetReady True \<in> set (fst (main exampleEnv))"
    by (simp add: main_exampleEnv)
  have fetch: "EvServerGetByID 42 \<in> set (fst (main exampleEnvFetchFails))
               \<and> snd (serverGetByID exampleEnvFetchFails 42) \<noteq> None"
    by (simp add: main_exampleEnvFetchFails) (simp add: exampleEnvFetchFails_def)
  show ?thesis
    using ready fetch
      main_ready_only_after_server_fetch [of exampleEnv]
      main_ready_only_after_server_fetch [of exampleEnvFetchFails]
    by blast
qed

text \<open>
  Claim C8. An endpoint that does not start with \<^verbatim>\<open>unix://\<close> ends the run with status 2
  before any effect. Otherwise the first effect of the run is the removal of the file at
  the endpoint's path; if the removal fails for a reason other than the file not
  existing, the run exits with status 1 and has no other effect. A listener is bound
  only on that path, only after the removal, and only if the removal did not fail.
\<close>

theorem main_removes_stale_socket_before_listen:
  "(\<not> prefix ''unix://'' (getenv e ''CSI_ENDPOINT'') \<longrightarrow> main e = ([], Exit 2))
   \<and> (prefix ''unix://'' (getenv e ''CSI_ENDPOINT'') \<longrightarrow>
        fst (main e) \<noteq> [] \<and> hd (fst (main e)) = EvRemove (drop 7 (getenv e ''CSI_ENDPOINT'')))
   \<and> (prefix ''unix://'' (getenv e ''CSI_ENDPOINT'')
        \<and> osRemove e (drop 7 (getenv e ''CSI_ENDPOINT'')) = RemoveFailed \<longrightarrow>
        main e = ([EvRemove (drop 7 (getenv e ''CSI_ENDPOINT''))], Exit 1))
   \<and> (\<forall>p. EvListen p \<in> set (fst (main e)) \<longrightarrow>
        p = drop 7 (getenv e ''CSI_ENDPOINT'')
        \<and> osRemove e p \<noteq> RemoveFailed
        \<and> (\<exists>pre post. fst (main e) = pre @ EvListen p # post \<and> EvRemove p \<in> set pre
              \<and> (\<forall>q. EvListen q \<notin> set pre)))"
proof (cases "prefix ''unix://'' (getenv e ''CSI_ENDPOINT'')")
  case False
  then have "main e = ([], Exit 2)"
    by (rule main_rejects_endpoint)
  then show ?thesis
    using False by simp
next
  case True
  let ?p = "drop 7 (getenv e ''CSI_ENDPOINT'')"
  have failed: "osRemove e ?p = RemoveFailed \<longrightarrow> main e = ([EvRemove ?p], Exit 1)"
    using main_remove_failed [OF True] by simp
  from True have run: "fst (main e) \<noteq> [] \<and> hd (fst (main e)) = EvRemove ?p
     \<and> (\<forall>p. EvListen p \<in> set (fst (main e)) \<longrightarrow>
        p = ?p \<and> osRemove e p \<noteq> RemoveFailed
        \<and> (\<exists>pre post. fst (main e) = pre @ EvListen p # post \<and> EvRemove p \<in> set pre
              \<and> (\<forall>q. EvListen q \<notin> set pre)))"
  proof (cases rule: main_shape)
    case (stopped g)
    have "\<forall>p. EvListen p \<notin> set (fst (main e))"
      using stopped by auto
    then show ?thesis
      using stopped(2) by simp
  next
    case (fetched g i)
    have "\<forall>p. EvListen p \<notin> set (fst (main e))"
      using fetched(1,2) by auto
    then show ?thesis
      using fetched(2) by simp
  next
    case (listening g i post)
    have split: "fst (main e) = (EvRemove ?p # g @ [EvServerGetByID i]) @ EvListen ?p # post"
      using listening(2) by simp
    have pre: "EvRemove ?p \<in> set (EvRemove ?p # g @ [EvServerGetByID i])"
      by simp
    have pre2: "\<forall>q. EvListen q \<notin> set (EvRemove ?p # g @ [EvServerGetByID i])"
      using listening(1) by auto
    have ex: "\<exists>pre post. fst (main e) = pre @ EvListen ?p # post \<and> EvRemove ?p \<in> set pre
              \<and> (\<forall>q. EvListen q \<notin> set pre)"
      by (intro exI [of _ "EvRemove ?p # g @ [EvServerGetByID i]"] exI [of _ post] conjI)
         (rule split, rule pre, rule pre2)
    have only: "EvListen p \<in> set (fst (main e)) \<Longrightarrow> p = ?p" for p
      using listening(1,3) unfolding listening(2) by auto
    have hd: "fst (main e) \<noteq> []" "hd (fst (main e)) = EvRemove ?p"
      using listening(2) by simp_all
    show ?thesis
    proof (intro conjI allI impI)
      fix p
      assume "EvListen p \<in> set (fst (main e))"
      then have p: "p = ?p"
        by (rule only)
      show "p = ?p"
        by (rule p)
      show "osRemove e p \<noteq> RemoveFailed"
        unfolding p by (rule listening(6))
      show "\<exists>pre post. fst (main e) = pre @ EvListen p # post \<and> EvRemove p \<in> set pre
              \<and> (\<forall>q. EvListen q \<notin> set pre)"
        unfolding p by (rule ex)
    qed (rule hd)+
  qed
  show ?thesis
  proof (intro conjI)
    show "\<not> prefix ''unix://'' (getenv e ''CSI_ENDPOINT'') \<longrightarrow> main e = ([], Exit 2)"
      using True by simp
    show "prefix ''unix://'' (getenv e ''CSI_ENDPOINT'') \<longrightarrow>
            fst (main e) \<noteq> [] \<and> hd (fst (main e)) = EvRemove ?p"
      using run by (intro impI conjI) (rule conjunct1, assumption, rule conjunct1 [OF conjunct2], assumption)
    show "prefix ''unix://'' (getenv e ''CSI_ENDPOINT'') \<and> osRemove e ?p = RemoveFailed \<longrightarrow>
            main e = ([EvRemove ?p], Exit 1)"
      using failed by (intro impI) (rule mp, assumption, erule conjunct2)
    show "\<forall>p. EvListen p \<in> set (fst (main e)) \<longrightarrow>
        p = ?p \<and> osRemove e p \<noteq> RemoveFailed
        \<and> (\<exists>pre post. fst (main e) = pre @ EvListen p # post \<and> EvRemove p \<in> set pre
              \<and> (\<forall>q. EvListen q \<notin> set pre))"
      by (rule conjunct2 [OF conjunct2 [OF run]])
  qed
qed

theorem main_removes_stale_socket_before_listen_witness:
  "prefix ''unix://'' (getenv exampleEnv ''CSI_ENDPOINT'')
   \<and> hd (fst (main exampleEnv)) = EvRemove ''/run/csi.sock''
   \<and> EvListen ''/run/csi.sock'' \<in> set (fst (main exampleEnv))
   \<and> osRemove exampleEnv ''/run/csi.sock'' \<noteq> RemoveFailed
   \<and> (\<exists>pre post. fst (main exampleEnv) = pre @ EvListen ''/run/csi.sock'' # post
         \<and> EvRemove ''/run/csi.sock'' \<in> set pre \<and> (\<forall>q. EvListen q \<notin> set pre))
   \<and> osRemove exampleEnvRemoveFails (drop 7 (getenv exampleEnvRemoveFails ''CSI_ENDPOINT''))
       = RemoveFailed
   \<and> main exampleEnvRemoveFails = ([EvRemove ''/run/csi.sock''], Exit 1)"
proof -
  have ep: "getenv exampleEnv ''CSI_ENDPOINT'' = ''unix:///run/csi.sock''"
    "getenv exampleEnvRemoveFails ''CSI_ENDPOINT'' = ''unix:///run/csi.sock''"
    by (simp_all add: exampleEnv_def exampleEnvRemoveFails_def)
  have pre: "prefix ''unix://'' (getenv exampleEnv ''CSI_ENDPOINT'')"
    "prefix ''unix://'' (getenv exampleEnvRemoveFails ''CSI_ENDPOINT'')"
    by (simp_all add: ep)
  have p: "drop 7 (getenv exampleEnv ''CSI_ENDPOINT'') = ''/run/csi.sock''"
    "drop 7 (getenv exampleEnvRemoveFails ''CSI_ENDPOINT'') = ''/run/csi.sock''"
    by (simp_all add: ep)
  have listen: "EvListen ''/run/csi.sock'' \<in> set (fst (main exampleEnv))"
    by (simp add: main_exampleEnv)
  have rm: "osRemove exampleEnvRemoveFails ''/run/csi.sock'' = RemoveFailed"
    by (simp add: exampleEnvRemoveFails_def)
  show ?thesis
    using pre listen rm
      main_removes_stale_socket_before_listen [of exampleEnv]
      main_removes_stale_socket_before_listen [of exampleEnvRemoveFails]
    unfolding p by blast
qed

end
